theory Spec2Isabelle
  imports Complex_Main "HOL-Library.Word"
begin

section \<open>Numbers\<close>

text \<open>
  The program is JavaScript (src/components/audio-feedback.js). A JavaScript number is
  modelled as a real with exact arithmetic, plus the value NaN, which the program can
  produce by dividing 0 by 0 in \<open>getVolume\<close>. Rounding and overflow of doubles are not
  modelled. A comparison with NaN is false and arithmetic on NaN gives NaN.
\<close>

datatype number = Num real | NaN

fun js_lt :: "number \<Rightarrow> number \<Rightarrow> bool" where
  "js_lt (Num a) (Num b) = (a < b)"
| "js_lt _ _ = False"

fun js_add :: "number \<Rightarrow> number \<Rightarrow> number" where
  "js_add (Num a) (Num b) = Num (a + b)"
| "js_add _ _ = NaN"

fun js_mul :: "number \<Rightarrow> number \<Rightarrow> number" where
  "js_mul (Num a) (Num b) = Num (a * b)"
| "js_mul _ _ = NaN"

section \<open>Constants\<close>

definition DISABLE_AT_VOLUME_THRESHOLD :: real where
  "DISABLE_AT_VOLUME_THRESHOLD = 1 / 100000"

definition DISABLE_GRACE_PERIOD_MS :: real where
  "DISABLE_GRACE_PERIOD_MS = 10000"

definition MIN_VOLUME_THRESHOLD :: real where
  "MIN_VOLUME_THRESHOLD = 1 / 100"

section \<open>getVolume\<close>

text \<open>
  \<open>levels\<close> is a \<open>Uint8Array\<close>: a list of bytes. \<open>amplitude\<close> is the loop body's
  \<open>(levels[i] - 128) / 128\<close>, computed on numbers (no wrap-around), and the loop adds
  the squares from left to right, starting from 0.
\<close>

type_synonym levels = "8 word list"

definition amplitude :: "8 word \<Rightarrow> real" where
  "amplitude l = (real (unat l) - 128) / 128"

definition sum_squares :: "levels \<Rightarrow> real" where
  "sum_squares levels = foldl (\<lambda>sum l. sum + amplitude l * amplitude l) 0 levels"

text \<open>
  \<open>sum / levels.length\<close>: for the empty buffer the loop does not run, \<open>sum\<close> is 0 and
  the quotient is 0 / 0, which is NaN; \<open>Math.sqrt(NaN)\<close> is NaN, \<open>NaN < 0.01\<close> is false,
  and NaN is returned. Otherwise the divisor is positive and the quotient is finite.
\<close>

definition getVolume :: "levels \<Rightarrow> number" where
  "getVolume levels =
     (let sum = sum_squares levels in
      if length levels = 0 then NaN
      else
        let currVolume = sqrt (sum / real (length levels)) in
        if currVolume < MIN_VOLUME_THRESHOLD then Num 0 else Num currVolume)"

text \<open>The spec's words: the root of the mean of the squared normalised samples.\<close>

definition rms :: "levels \<Rightarrow> real" where
  "rms levels =
     sqrt ((\<Sum>l\<leftarrow>levels. ((real (unat l) - 128) / 128)\<^sup>2) / real (length levels))"

section \<open>getAudioFeedbackScale\<close>

text \<open>
  The positions, the scales and the volume given to \<open>getAudioFeedbackScale\<close> are any
  doubles, and a distance can overflow, so here a number is a finite value, Infinity,
  -Infinity or NaN. A finite result is exact while it is in the range of a double; beyond
  \<open>Number.MAX_VALUE\<close> it is Infinity or -Infinity. Rounding, underflow and the sign of
  zero are not modelled.
\<close>

datatype double = Finite real | Infinity | NegInfinity | NotANumber

definition MAX_VALUE :: real where
  "MAX_VALUE = 2 ^ 1024 - 2 ^ 971"















definition nonneg :: "double \<Rightarrow> bool" where
  "nonneg x = (case x of Finite a \<Rightarrow> 0 \<le> a \<and> a \<le> MAX_VALUE | Infinity \<Rightarrow> True | _ \<Rightarrow> False)"


section \<open>The frame scheduler\<close>

text \<open>
  Modelled from the spec: the frame scheduler system is not among the sources. Its
  interface is \<open>schedule(callback, groupKey)\<close> and \<open>unschedule(callback, groupKey)\<close>, both
  idempotent. The model keeps the registrations as a list of callback and group key.
  A callback is a bound method of a component: the component's identity and the method.
\<close>

datatype bound_method = M_updateAnalysis | M_runScheduledWork

type_synonym 'e callback = "'e \<times> bound_method"

type_synonym 'e scheduler = "('e callback \<times> string) list"

definition schedule :: "'e callback \<Rightarrow> string \<Rightarrow> 'e scheduler \<Rightarrow> 'e scheduler" where
  "schedule cb g sch = (if (cb, g) \<in> set sch then sch else sch @ [(cb, g)])"

definition unschedule :: "'e callback \<Rightarrow> string \<Rightarrow> 'e scheduler \<Rightarrow> 'e scheduler" where
  "unschedule cb g sch = removeAll (cb, g) sch"

section \<open>The component networked-audio-analyser\<close>

text \<open>
  The fields shared by the two analysers. \<open>analyser\<close> says whether \<open>this.analyser\<close> has
  been set; \<open>avatarIsQuiet\<close> and \<open>lastSeenVolume\<close> are undefined after \<open>init\<close>, which is
  falsy: \<open>False\<close> and \<open>None\<close>.
\<close>

record analysis =
  volume :: number
  prevVolume :: number
  immediateVolume :: number
  smoothing :: real
  analyser :: bool

record networked_audio_analyser = analysis +
  avatarIsQuiet :: bool
  lastSeenVolume :: "real option"

text \<open>
  \<open>init\<close> of the component \<open>e\<close>: the fields, and the registration of the bound
  \<open>_updateAnalysis\<close> under the group "audio-analyser".
\<close>

definition naa_init :: "'e \<Rightarrow> 'e scheduler \<Rightarrow> networked_audio_analyser \<times> 'e scheduler" where
  "naa_init e sch =
     (\<lparr>volume = Num 0, prevVolume = Num 0, immediateVolume = Num 0, smoothing = 3 / 10,
       analyser = False, avatarIsQuiet = False, lastSeenVolume = None\<rparr>,
      schedule (e, M_updateAnalysis) ''audio-analyser'' sch)"

text \<open>The listener of "sound-source-set" creates the analyser and its 16 byte buffer.\<close>

definition sound_source_set :: "networked_audio_analyser \<Rightarrow> networked_audio_analyser" where
  "sound_source_set s = s\<lparr>analyser := True\<rparr>"

text \<open>\<open>remove\<close> unschedules the bound \<open>_runScheduledWork\<close>.\<close>

definition naa_remove :: "'e \<Rightarrow> 'e scheduler \<Rightarrow> 'e scheduler" where
  "naa_remove e sch = unschedule (e, M_runScheduledWork) ''audio-analyser'' sch"

text \<open>
  The argument \<open>t\<close> of \<open>_updateAnalysis\<close> is \<open>None\<close> when the call passes none. A number
  is truthy when it is not 0, and undefined is falsy.
\<close>

fun truthy :: "real option \<Rightarrow> bool" where
  "truthy None = False"
| "truthy (Some v) = (v \<noteq> 0)"

text \<open>\<open>this.lastSeenVolume < t - DISABLE_GRACE_PERIOD_MS\<close>, both sides being numbers.\<close>

fun lastSeen_before :: "real option \<Rightarrow> real option \<Rightarrow> bool" where
  "lastSeen_before (Some l) (Some tv) = (l < tv - DISABLE_GRACE_PERIOD_MS)"
| "lastSeen_before _ _ = False"

text \<open>
  \<open>_updateAnalysis(t)\<close>; \<open>samples\<close> is what \<open>getByteTimeDomainData\<close> writes into
  \<open>this.levels\<close> at this call.
\<close>

definition updateAnalysis ::
  "real option \<Rightarrow> levels \<Rightarrow> networked_audio_analyser \<Rightarrow> networked_audio_analyser" where
  "updateAnalysis t samples s =
     (if \<not> analyser s then s
      else
        let imm = getVolume samples;
            vol = js_add (js_mul (Num (smoothing s)) imm)
                         (js_mul (Num (1 - smoothing s)) (prevVolume s));
            s1 = s\<lparr>immediateVolume := imm, volume := vol, prevVolume := vol\<rparr>
        in
          if js_lt vol (Num DISABLE_AT_VOLUME_THRESHOLD) then
            (if truthy t \<and> truthy (lastSeenVolume s1) \<and> lastSeen_before (lastSeenVolume s1) t
             then s1\<lparr>avatarIsQuiet := True\<rparr> else s1)
          else
            (let s2 = (if truthy t then s1\<lparr>lastSeenVolume := t\<rparr> else s1)
             in s2\<lparr>avatarIsQuiet := False\<rparr>))"

definition naa_tick :: "real \<Rightarrow> levels \<Rightarrow> networked_audio_analyser \<Rightarrow> networked_audio_analyser" where
  "naa_tick t samples s = (if \<not> avatarIsQuiet s then updateAnalysis (Some t) samples s else s)"

definition runScheduledWork :: "levels \<Rightarrow> networked_audio_analyser \<Rightarrow> networked_audio_analyser" where
  "runScheduledWork samples s = (if avatarIsQuiet s then updateAnalysis None samples s else s)"

text \<open>A sequence of calls of \<open>_updateAnalysis\<close>, each with its argument and its samples.\<close>

fun updates ::
  "(real option \<times> levels) list \<Rightarrow> networked_audio_analyser \<Rightarrow> networked_audio_analyser" where
  "updates [] s = s"
| "updates ((t, samples) # cs) s = updates cs (updateAnalysis t samples s)"

text \<open>The volume of a state is below the threshold: \<open>this.volume < threshold\<close> is true.\<close>

definition below_threshold :: "networked_audio_analyser \<Rightarrow> bool" where
  "below_threshold s = js_lt (volume s) (Num DISABLE_AT_VOLUME_THRESHOLD)"

text \<open>
  Every call of the sequence carries a timestamp less than \<open>DISABLE_GRACE_PERIOD_MS\<close>
  after \<open>t0\<close>, and the volume is below the threshold once the call is made.
\<close>

fun quiet_calls ::
  "real \<Rightarrow> (real option \<times> levels) list \<Rightarrow> networked_audio_analyser \<Rightarrow> bool" where
  "quiet_calls t0 [] s = True"
| "quiet_calls t0 ((t, samples) # cs) s =
     (case t of
        None \<Rightarrow> False
      | Some tv \<Rightarrow>
          tv - t0 < DISABLE_GRACE_PERIOD_MS \<and> below_threshold (updateAnalysis t samples s)
          \<and> quiet_calls t0 cs (updateAnalysis t samples s))"

text \<open>
  Two buffers of 16 bytes, the size the component allocates: silence, and a signal at
  full scale. \<open>ready\<close> is the component after \<open>init\<close> and "sound-source-set", and
  \<open>faded\<close> a history of calls without timestamp: the signal once, then 27 times silence.
\<close>

definition silence :: levels where
  "silence = replicate 16 128"

definition full_scale :: levels where
  "full_scale = replicate 16 0"

definition ready :: networked_audio_analyser where
  "ready = sound_source_set (fst (naa_init () []))"

definition faded :: networked_audio_analyser where
  "faded = updates ((None, full_scale) # replicate 27 (None, silence)) ready"

text \<open>
  From there: a call at 1 ms that is still at the threshold, a call at 5000 ms below it
  (\<open>still_active\<close>), and a call at 10002 ms (\<open>gone_quiet\<close>).
\<close>

definition still_active :: networked_audio_analyser where
  "still_active = updateAnalysis (Some 5000) silence (updateAnalysis (Some 1) silence faded)"

definition gone_quiet :: networked_audio_analyser where
  "gone_quiet = updateAnalysis (Some 10002) silence still_active"

section \<open>The system local-audio-analyser\<close>

text \<open>
  \<open>stream\<close> says whether \<open>this.stream\<close> has been set; it and \<open>analyser\<close> are
  undefined after \<open>init\<close>.
\<close>

record 'a local_audio_analyser = analysis +
  subscribers :: "'a list"
  stream :: bool

definition laa_init :: "'a local_audio_analyser" where
  "laa_init =
     \<lparr>volume = Num 0, prevVolume = Num 0, immediateVolume = Num 0, smoothing = 3 / 10,
      analyser = False, subscribers = [], stream = False\<rparr>"

text \<open>\<open>Array.prototype.indexOf\<close>: the first index of the element, or -1.\<close>

fun indexOf :: "'a list \<Rightarrow> 'a \<Rightarrow> int" where
  "indexOf [] ii = - 1"
| "indexOf (y # ys) ii =
     (if y = ii then 0 else (let i = indexOf ys ii in if i = - 1 then - 1 else i + 1))"

text \<open>\<open>splice(index, 1)\<close> for an index within the array: the element there is removed.\<close>

definition splice1 :: "nat \<Rightarrow> 'a list \<Rightarrow> 'a list" where
  "splice1 index xs = take index xs @ drop (index + 1) xs"

definition subscribe :: "'a \<Rightarrow> 'a local_audio_analyser \<Rightarrow> 'a local_audio_analyser" where
  "subscribe ii s =
     (if indexOf (subscribers s) ii = - 1 then s\<lparr>subscribers := subscribers s @ [ii]\<rparr> else s)"

definition unsubscribe :: "'a \<Rightarrow> 'a local_audio_analyser \<Rightarrow> 'a local_audio_analyser" where
  "unsubscribe ii s =
     (let index = indexOf (subscribers s) ii in
      if index \<noteq> - 1 then s\<lparr>subscribers := splice1 (nat index) (subscribers s)\<rparr> else s)"

section \<open>Exceptions of the update calls\<close>

text \<open>
  A read of a property or a call of a method on a value that is undefined or null raises
  a TypeError. The update calls have no other operation that raises: arithmetic and
  comparisons on numbers, also on NaN, do not. \<open>member_of present v\<close> is the result \<open>v\<close>
  of using a member of an object, when the object is there.
\<close>

datatype error = TypeError

definition member_of :: "bool \<Rightarrow> 'a \<Rightarrow> error + 'a" where
  "member_of present v = (if present then Inr v else Inl TypeError)"

text \<open>
  \<open>_updateAnalysis(t)\<close> with its exceptions: after the guard,
  \<open>getByteTimeDomainData\<close> is called on \<open>this.analyser\<close> and writes the samples into
  \<open>this.levels\<close>, which is assigned together with \<open>this.analyser\<close>; the rest is the
  update as above. \<open>tick\<close> and \<open>_runScheduledWork\<close> call it.
\<close>

definition updateAnalysis_call ::
  "real option \<Rightarrow> levels \<Rightarrow> networked_audio_analyser \<Rightarrow> error + networked_audio_analyser" where
  "updateAnalysis_call t samples s =
     (if \<not> analyser s then Inr s
      else
        case member_of (analyser s) samples of
          Inl e \<Rightarrow> Inl e
        | Inr levels \<Rightarrow> Inr (updateAnalysis t levels s))"

definition naa_tick_call ::
  "real \<Rightarrow> levels \<Rightarrow> networked_audio_analyser \<Rightarrow> error + networked_audio_analyser" where
  "naa_tick_call t samples s =
     (if \<not> avatarIsQuiet s then updateAnalysis_call (Some t) samples s else Inr s)"

definition runScheduledWork_call ::
  "levels \<Rightarrow> networked_audio_analyser \<Rightarrow> error + networked_audio_analyser" where
  "runScheduledWork_call samples s =
     (if avatarIsQuiet s then updateAnalysis_call None samples s else Inr s)"

text \<open>
  \<open>tick\<close> of the system local-audio-analyser is an async function: a call runs to its
  \<open>await\<close> of \<open>getMediaStream\<close> or to its end, and what follows the \<open>await\<close> runs later,
  with the value the promise resolved to, on the system as it is then. \<open>laa_analyse\<close> is
  the end of the function, from the guard on \<open>this.analyser\<close> and \<open>this.stream\<close>;
  \<open>laa_tick\<close> is the call up to the \<open>await\<close>, \<open>adapter\<close> saying whether
  \<open>NAF.connection.adapter\<close> is there; \<open>laa_tick_resumed\<close> is the rest, \<open>resolved\<close>
  saying whether the promise gave a stream. A promise that is rejected is a failure of
  the adapter and is not modelled, and the calls of the audio context and of the analyser
  node (\<open>createMediaStreamSource\<close>, \<open>createAnalyser\<close>, \<open>connect\<close>,
  \<open>getByteTimeDomainData\<close>) are taken to return.
\<close>

datatype 's outcome = Returned 's | Awaiting 's

definition laa_analyse ::
  "levels \<Rightarrow> 'a local_audio_analyser \<Rightarrow> error + 'a local_audio_analyser" where
  "laa_analyse samples s =
     (if \<not> analyser s \<or> \<not> stream s then Inr s
      else
        case member_of (analyser s) samples of
          Inl e \<Rightarrow> Inl e
        | Inr levels \<Rightarrow>
            let imm = getVolume levels;
                vol = js_add (js_mul (Num (smoothing s)) imm)
                             (js_mul (Num (1 - smoothing s)) (prevVolume s))
            in Inr (s\<lparr>immediateVolume := imm, volume := vol, prevVolume := vol\<rparr>))"

definition laa_tick ::
  "bool \<Rightarrow> levels \<Rightarrow> 'a local_audio_analyser \<Rightarrow> error + 'a local_audio_analyser outcome" where
  "laa_tick adapter samples s =
     (if \<not> adapter then Inr (Returned s)
      else if length (subscribers s) = 0 then
        (case laa_analyse samples (s\<lparr>analyser := False, stream := False\<rparr>) of
           Inl e \<Rightarrow> Inl e
         | Inr s1 \<Rightarrow> Inr (Returned s1))
      else if \<not> stream s then
        (case member_of adapter s of
           Inl e \<Rightarrow> Inl e
         | Inr s1 \<Rightarrow> Inr (Awaiting s1))
      else
        (case laa_analyse samples s of
           Inl e \<Rightarrow> Inl e
         | Inr s1 \<Rightarrow> Inr (Returned s1)))"

definition laa_tick_resumed ::
  "bool \<Rightarrow> levels \<Rightarrow> 'a local_audio_analyser \<Rightarrow> error + 'a local_audio_analyser" where
  "laa_tick_resumed resolved samples s =
     (let s1 = s\<lparr>stream := resolved\<rparr> in
      if \<not> stream s1 then Inr s1
      else laa_analyse samples (s1\<lparr>analyser := True\<rparr>))"

section \<open>The component mic-button\<close>

definition micLevels :: "string list" where
  "micLevels =
     [''mic-level-1.png'', ''mic-level-1.png'', ''mic-level-2.png'', ''mic-level-3.png'',
      ''mic-level-4.png'', ''mic-level-5.png'', ''mic-level-7.png'', ''mic-level-7.png'']"

text \<open>
  \<open>loudest\<close> and \<open>decayingVolume\<close> start at 0 and are only assigned finite numbers (an
  immediate volume is stored only when the comparison with it was true). \<open>mb_smoothing\<close>
  is the component's field \<open>smoothing\<close>; \<open>icon_button\<close> is the image last set on the
  element's attribute "icon-button".
\<close>

record mic_button =
  loudest :: real
  prevImage :: string
  decayingVolume :: real
  mb_smoothing :: real
  icon_button :: "string option"

definition mb_init :: mic_button where
  "mb_init =
     \<lparr>loudest = 0, prevImage = [], decayingVolume = 0, mb_smoothing = 8 / 10,
      icon_button = None\<rparr>"

text \<open>The chain of conditionals that selects \<open>level\<close>.\<close>

definition level :: "real \<Rightarrow> real \<Rightarrow> nat" where
  "level vol loud =
     (if vol < loud * (1 / 10) then 1
      else if vol < loud * (2 / 10) then 2
      else if vol < loud * (45 / 100) then 3
      else if vol < loud * (6 / 10) then 4
      else if vol < loud * (8 / 10) then 5
      else 7)"

text \<open>\<open>audioAnalyser.immediateVolume > this.decayingVolume\<close>\<close>

definition exceeds :: "number \<Rightarrow> real \<Rightarrow> bool" where
  "exceeds imm d = js_lt (Num d) imm"

text \<open>The branch taken when the immediate volume \<open>v\<close> exceeds the decaying volume.\<close>

definition attack :: "real \<Rightarrow> mic_button \<Rightarrow> real \<times> mic_button" where
  "attack v s = (v, s\<lparr>decayingVolume := v, loudest := max (loudest s) v\<rparr>)"

text \<open>The other branch.\<close>

definition decay :: "mic_button \<Rightarrow> real \<times> mic_button" where
  "decay s =
     (let vol = (if decayingVolume s * mb_smoothing s < 1 / 1000 then 0
                 else decayingVolume s * mb_smoothing s)
      in (vol, s\<lparr>decayingVolume := vol\<rparr>))"

text \<open>
  \<open>tick\<close> of the mic button \<open>self\<close>: \<open>visible\<close> is \<open>this.el.object3D.visible\<close>, and the
  system "local-audio-analyser" is \<open>None\<close> when the scene has none. The result is the
  component and the system after the call.
\<close>

definition mb_tick ::
  "'a \<Rightarrow> bool \<Rightarrow> 'a local_audio_analyser option \<Rightarrow> mic_button
     \<Rightarrow> mic_button \<times> 'a local_audio_analyser option" where
  "mb_tick self visible audioAnalyser s =
     (case audioAnalyser of
        None \<Rightarrow> (s, None)
      | Some a \<Rightarrow>
          let a1 = (if visible then subscribe self a else unsubscribe self a);
              (vol, s1) = (case immediateVolume a1 of
                             Num v \<Rightarrow> if exceeds (Num v) (decayingVolume s) then attack v s
                                      else decay s
                           | NaN \<Rightarrow> decay s);
              newimage = micLevels ! level vol (loudest s1);
              s2 = (if newimage \<noteq> prevImage s1
                    then s1\<lparr>prevImage := newimage, icon_button := Some newimage\<rparr> else s1)
          in (s2, Some a1))"

text \<open>
  A sequence of ticks of one mic button; each tick finds the visibility and the analyser
  system as they are at that frame.
\<close>

fun mb_ticks ::
  "'a \<Rightarrow> (bool \<times> 'a local_audio_analyser option) list \<Rightarrow> mic_button \<Rightarrow> mic_button" where
  "mb_ticks self [] s = s"
| "mb_ticks self ((visible, a) # fs) s = mb_ticks self fs (fst (mb_tick self visible a s))"

text \<open>
  In every frame of the sequence the analyser exists and its immediate volume does not
  exceed the decaying volume.
\<close>

fun no_new_input ::
  "'a \<Rightarrow> (bool \<times> 'a local_audio_analyser option) list \<Rightarrow> mic_button \<Rightarrow> bool" where
  "no_new_input self [] s = True"
| "no_new_input self ((visible, a) # fs) s =
     (case a of
        None \<Rightarrow> False
      | Some an \<Rightarrow>
          \<not> exceeds (immediateVolume an) (decayingVolume s)
          \<and> no_new_input self fs (fst (mb_tick self visible a s)))"

text \<open>
  The decaying volume \<open>d\<close> after \<open>n\<close> multiplications by 0.8, set to 0 when below 0.001.
\<close>

definition decayed :: "real \<Rightarrow> nat \<Rightarrow> real" where
  "decayed d n = (if d * (8 / 10) ^ n < 1 / 1000 then 0 else d * (8 / 10) ^ n)"

text \<open>A mic button that has heard one immediate volume of 0.5 since \<open>init\<close>.\<close>

definition heard_half :: mic_button where
  "heard_half =
     mb_ticks (0 :: nat) [(True, Some (laa_init\<lparr>immediateVolume := Num (1 / 2)\<rparr>))] mb_init"

section \<open>Lemmas on getVolume\<close>

lemma foldl_sum_squares:
  "foldl (\<lambda>sum l. sum + amplitude l * amplitude l) a levels
     = a + (\<Sum>l\<leftarrow>levels. (amplitude l)\<^sup>2)"
  by (induction levels arbitrary: a) (simp_all add: power2_eq_square)

lemma sum_squares_sum_list: "sum_squares levels = (\<Sum>l\<leftarrow>levels. (amplitude l)\<^sup>2)"
  by (simp add: sum_squares_def foldl_sum_squares)

lemma sum_squares_nonneg: "0 \<le> sum_squares levels"
  unfolding sum_squares_sum_list by (rule sum_list_nonneg) auto

lemma amplitude_bounds: "- 1 \<le> amplitude l \<and> amplitude l < 1"
proof -
  have "unat l < 256" using unsigned_less [of l] by simp
  then have "real (unat l) < real 256" by (simp only: of_nat_less_iff)
  moreover have "0 \<le> real (unat l)" by (rule of_nat_0_le_iff)
  ultimately show ?thesis by (simp add: amplitude_def del: of_nat_unat)
qed

lemma amplitude_sq_le_1: "(amplitude l)\<^sup>2 \<le> 1"
proof -
  have "\<bar>amplitude l\<bar> \<le> 1" using amplitude_bounds [of l] by linarith
  then show ?thesis by (simp add: abs_square_le_1)
qed

lemma sum_squares_le_length: "sum_squares levels \<le> real (length levels)"
  unfolding sum_squares_sum_list
proof (induction levels)
  case Nil
  show ?case by simp
next
  case (Cons l ls)
  then show ?case using amplitude_sq_le_1 [of l] by simp
qed

lemma getVolume_rms:
  assumes "levels \<noteq> []"
  shows "getVolume levels = (if rms levels < MIN_VOLUME_THRESHOLD then Num 0 else Num (rms levels))"
  using assms by (simp add: getVolume_def rms_def sum_squares_sum_list amplitude_def Let_def)

lemma sum_squares_silent:
  "set levels \<subseteq> {128} \<Longrightarrow> sum_squares levels = 0"
  unfolding sum_squares_sum_list
  by (induction levels) (simp_all add: amplitude_def)

lemma rms_eq: "rms levels = sqrt (sum_squares levels / real (length levels))"
  by (simp add: rms_def sum_squares_sum_list amplitude_def)

lemma rms_nonneg: "0 \<le> rms levels"
  by (simp add: rms_eq sum_squares_nonneg)

lemma rms_le_1:
  assumes "levels \<noteq> []"
  shows "rms levels \<le> 1"
proof -
  have "sum_squares levels / real (length levels) \<le> 1"
    using assms sum_squares_le_length [of levels] by (simp add: divide_le_eq)
  then show ?thesis unfolding rms_eq by simp
qed

lemma rms_silent:
  assumes "set levels \<subseteq> {128}"
  shows "rms levels = 0"
  using sum_squares_silent [OF assms] by (simp add: rms_eq)

lemma getVolume_finite:
  assumes "levels \<noteq> []"
  shows "\<exists>r. getVolume levels = Num r \<and> 0 \<le> r \<and> r \<le> 1"
  using getVolume_rms [OF assms] rms_nonneg [of levels] rms_le_1 [OF assms]
  by (simp add: MIN_VOLUME_THRESHOLD_def)

lemma rms_two_zero: "rms [0, 0] = 1"
  by (simp add: rms_def)

lemma rms_three_silent: "rms [128, 128, 128] = 0"
  by (simp add: rms_def)

lemma rms_one_off: "rms [128, 129, 128, 128] = 1 / 256"
  unfolding rms_def by (rule real_sqrt_unique) (simp_all add: power2_eq_square)

section \<open>Lemmas on the update of the analysis\<close>

lemma analyser_updateAnalysis [simp]: "analyser (updateAnalysis t samples s) = analyser s"
  by (simp add: updateAnalysis_def Let_def)

lemma smoothing_updateAnalysis [simp]: "smoothing (updateAnalysis t samples s) = smoothing s"
  by (simp add: updateAnalysis_def Let_def)

lemma volume_updateAnalysis:
  "analyser s \<Longrightarrow>
     volume (updateAnalysis t samples s)
       = js_add (js_mul (Num (smoothing s)) (getVolume samples))
                (js_mul (Num (1 - smoothing s)) (prevVolume s))"
  by (simp add: updateAnalysis_def Let_def)

lemma prevVolume_updateAnalysis:
  "analyser s \<Longrightarrow> prevVolume (updateAnalysis t samples s) = volume (updateAnalysis t samples s)"
  by (simp add: updateAnalysis_def Let_def)

lemma quiet_updateAnalysis:
  "analyser s \<Longrightarrow>
     avatarIsQuiet (updateAnalysis t samples s)
       = (below_threshold (updateAnalysis t samples s)
          \<and> (avatarIsQuiet s
               \<or> truthy t \<and> truthy (lastSeenVolume s) \<and> lastSeen_before (lastSeenVolume s) t))"
  by (auto simp add: updateAnalysis_def below_threshold_def Let_def)

lemma lastSeen_updateAnalysis:
  "analyser s \<Longrightarrow>
     lastSeenVolume (updateAnalysis t samples s)
       = (if \<not> below_threshold (updateAnalysis t samples s) \<and> truthy t then t
          else lastSeenVolume s)"
  by (simp add: updateAnalysis_def below_threshold_def Let_def)

lemma updateAnalysis_no_analyser: "\<not> analyser s \<Longrightarrow> updateAnalysis t samples s = s"
  by (simp add: updateAnalysis_def)

lemma untimestamped_keeps_active:
  "(\<forall>c \<in> set cs. fst c = None) \<Longrightarrow> \<not> avatarIsQuiet s \<Longrightarrow> \<not> avatarIsQuiet (updates cs s)"
proof (induction cs arbitrary: s)
  case Nil
  then show ?case by simp
next
  case (Cons c cs)
  obtain t samples where c: "c = (t, samples)" by (cases c)
  from Cons.prems have t: "t = None" by (simp add: c)
  have "\<not> avatarIsQuiet (updateAnalysis None samples s)"
    using Cons.prems(2) by (cases "analyser s") (simp_all add: quiet_updateAnalysis updateAnalysis_no_analyser)
  then show ?case using Cons.IH Cons.prems(1) by (simp add: c t)
qed

lemma getVolume_silence: "getVolume silence = Num 0"
proof -
  have "set silence \<subseteq> {128}" by (simp add: silence_def)
  then have "rms silence = 0" by (rule rms_silent)
  moreover have "silence \<noteq> []" by (simp add: silence_def)
  ultimately show ?thesis by (simp add: getVolume_rms MIN_VOLUME_THRESHOLD_def)
qed

lemma sum_squares_replicate: "sum_squares (replicate n l) = real n * (amplitude l)\<^sup>2"
  unfolding sum_squares_sum_list by (induction n) (simp_all add: algebra_simps)

lemma getVolume_full_scale: "getVolume full_scale = Num 1"
  by (simp add: getVolume_def full_scale_def sum_squares_replicate amplitude_def
      MIN_VOLUME_THRESHOLD_def)

lemma silent_update_volume:
  assumes "analyser s" "smoothing s = 3 / 10" "prevVolume s = Num v"
  shows "volume (updateAnalysis t silence s) = Num (v * (7 / 10))"
    and "prevVolume (updateAnalysis t silence s) = Num (v * (7 / 10))"
  using assms by (simp_all add: volume_updateAnalysis prevVolume_updateAnalysis getVolume_silence)

lemma silent_updates_volume:
  assumes "analyser s" "smoothing s = 3 / 10" "prevVolume s = Num v"
  shows "prevVolume (updates (replicate n (t, silence)) s) = Num (v * (7 / 10) ^ n)
         \<and> analyser (updates (replicate n (t, silence)) s)
         \<and> smoothing (updates (replicate n (t, silence)) s) = 3 / 10"
  using assms
proof (induction n arbitrary: s v)
  case 0
  then show ?case by simp
next
  case (Suc n)
  have "prevVolume (updateAnalysis t silence s) = Num (v * (7 / 10))"
    using Suc.prems by (rule silent_update_volume)
  moreover have "analyser (updateAnalysis t silence s)" "smoothing (updateAnalysis t silence s) = 3 / 10"
    using Suc.prems by simp_all
  ultimately show ?case using Suc.IH [of "updateAnalysis t silence s" "v * (7 / 10)"]
    by (simp add: algebra_simps)
qed

lemma ready_fields:
  "analyser ready" "smoothing ready = 3 / 10" "prevVolume ready = Num 0"
  "\<not> avatarIsQuiet ready" "lastSeenVolume ready = None"
  by (simp_all add: ready_def sound_source_set_def naa_init_def)

lemma faded_fields:
  "analyser faded" "smoothing faded = 3 / 10" "prevVolume faded = Num (3 / 10 * (7 / 10) ^ 27)"
proof -
  let ?s1 = "updateAnalysis None full_scale ready"
  have s1: "analyser ?s1" "smoothing ?s1 = 3 / 10" "prevVolume ?s1 = Num (3 / 10)"
    by (simp_all add: ready_fields prevVolume_updateAnalysis volume_updateAnalysis getVolume_full_scale)
  have "faded = updates (replicate 27 (None, silence)) ?s1" by (simp add: faded_def)
  then show "analyser faded" "smoothing faded = 3 / 10" "prevVolume faded = Num (3 / 10 * (7 / 10) ^ 27)"
    using silent_updates_volume [OF s1, of 27 None] by simp_all
qed

lemma untimestamped_keeps_lastSeen:
  "(\<forall>c \<in> set cs. fst c = None) \<Longrightarrow> lastSeenVolume (updates cs s) = lastSeenVolume s"
proof (induction cs arbitrary: s)
  case Nil
  then show ?case by simp
next
  case (Cons c cs)
  obtain t samples where c: "c = (t, samples)" by (cases c)
  from Cons.prems have t: "t = None" by (simp add: c)
  have "lastSeenVolume (updateAnalysis None samples s) = lastSeenVolume s"
    by (cases "analyser s") (simp_all add: lastSeen_updateAnalysis updateAnalysis_no_analyser)
  then show ?case using Cons.IH Cons.prems by (simp add: c t)
qed

lemma faded_active: "\<not> avatarIsQuiet faded" "lastSeenVolume faded = None"
proof -
  show "\<not> avatarIsQuiet faded" unfolding faded_def
    by (rule untimestamped_keeps_active) (simp_all add: ready_fields)
  have "lastSeenVolume faded = lastSeenVolume ready" unfolding faded_def
    by (rule untimestamped_keeps_lastSeen) simp
  then show "lastSeenVolume faded = None" by (simp add: ready_fields)
qed

lemma pow_27: "(7 / 10 :: real) ^ 27 = 65712362363534280139543 / 1000000000000000000000000000"
  by (simp add: power_divide)

text \<open>The faded state: one more silent call is at the threshold or above, two are below.\<close>

lemma faded_once:
  "\<not> below_threshold (updateAnalysis t silence faded)"
  by (simp add: below_threshold_def silent_update_volume [OF faded_fields]
      DISABLE_AT_VOLUME_THRESHOLD_def pow_27)

lemma faded_twice:
  "below_threshold (updateAnalysis t' silence (updateAnalysis t silence faded))"
proof -
  let ?s = "updateAnalysis t silence faded"
  have "analyser ?s" "smoothing ?s = 3 / 10" "prevVolume ?s = Num (3 / 10 * (7 / 10) ^ 27 * (7 / 10))"
    by (simp_all add: faded_fields silent_update_volume [OF faded_fields])
  then have "volume (updateAnalysis t' silence ?s) = Num (3 / 10 * (7 / 10) ^ 27 * (7 / 10) * (7 / 10))"
    by (rule silent_update_volume)
  then show ?thesis by (simp add: below_threshold_def DISABLE_AT_VOLUME_THRESHOLD_def pow_27)
qed

lemma within_grace_stays_active:
  assumes "analyser s" "\<not> avatarIsQuiet s" "lastSeenVolume s = Some t0" "quiet_calls t0 cs s"
  shows "\<not> avatarIsQuiet (updates cs s) \<and> lastSeenVolume (updates cs s) = Some t0
         \<and> analyser (updates cs s)"
  using assms
proof (induction cs arbitrary: s)
  case Nil
  then show ?case by simp
next
  case (Cons c cs)
  obtain t samples where c: "c = (t, samples)" by (cases c)
  from Cons.prems(4) obtain tv where t: "t = Some tv"
    and tv: "tv - t0 < DISABLE_GRACE_PERIOD_MS"
    and below: "below_threshold (updateAnalysis t samples s)"
    and rest: "quiet_calls t0 cs (updateAnalysis t samples s)"
    by (auto simp: c split: option.splits)
  let ?s' = "updateAnalysis t samples s"
  have "\<not> lastSeen_before (lastSeenVolume s) t"
    using tv by (simp add: t Cons.prems(3))
  then have "\<not> avatarIsQuiet ?s'"
    using Cons.prems(1,2) by (simp add: quiet_updateAnalysis)
  moreover have "lastSeenVolume ?s' = Some t0"
    using Cons.prems(1,3) below by (simp add: lastSeen_updateAnalysis)
  moreover have "analyser ?s'" using Cons.prems(1) by simp
  ultimately show ?case using Cons.IH [OF _ _ _ rest] by (simp add: c)
qed

lemmas trace_simps =
  volume_updateAnalysis prevVolume_updateAnalysis quiet_updateAnalysis lastSeen_updateAnalysis
  getVolume_silence getVolume_full_scale faded_fields faded_active pow_27
  below_threshold_def DISABLE_AT_VOLUME_THRESHOLD_def DISABLE_GRACE_PERIOD_MS_def

lemma still_active_fields:
  "analyser still_active" "smoothing still_active = 3 / 10" "\<not> avatarIsQuiet still_active"
  "lastSeenVolume still_active = Some 1"
  "prevVolume still_active = Num (3 / 10 * (7 / 10) ^ 27 * (7 / 10) * (7 / 10))"
  by (simp_all add: still_active_def trace_simps)

lemma gone_quiet_fields:
  "analyser gone_quiet" "smoothing gone_quiet = 3 / 10" "avatarIsQuiet gone_quiet"
  "lastSeenVolume gone_quiet = Some 1"
  "prevVolume gone_quiet = Num (3 / 10 * (7 / 10) ^ 27 * (7 / 10) * (7 / 10) * (7 / 10))"
  by (simp_all add: gone_quiet_def still_active_def trace_simps)

section \<open>C1: the grace period\<close>

text \<open>
  C1, as the code has it: when a call with a timestamp \<open>t0 > 0\<close> finds the volume at or
  above \<open>DISABLE_AT_VOLUME_THRESHOLD\<close>, and the volume then is below the threshold on
  every call with a timestamp less than \<open>DISABLE_GRACE_PERIOD_MS\<close> after \<open>t0\<close>, the avatar
  stays not quiet through these calls; a call with a timestamp more than
  \<open>DISABLE_GRACE_PERIOD_MS\<close> after \<open>t0\<close> that finds the volume below the threshold makes
  it quiet; and one later update, with or without timestamp, that finds the volume at or
  above the threshold makes it not quiet again.
\<close>

theorem grace_period_then_quiet:
  assumes "analyser s" and "0 < t0"
    and "\<not> below_threshold (updateAnalysis (Some t0) samples0 s)"
    and "quiet_calls t0 cs (updateAnalysis (Some t0) samples0 s)"
    and "DISABLE_GRACE_PERIOD_MS < t - t0"
    and "below_threshold (updateAnalysis (Some t) samples (updates cs (updateAnalysis (Some t0) samples0 s)))"
    and "\<not> below_threshold (updateAnalysis t' samples'
           (updateAnalysis (Some t) samples (updates cs (updateAnalysis (Some t0) samples0 s))))"
  shows "\<not> avatarIsQuiet (updates cs (updateAnalysis (Some t0) samples0 s))
       \<and> avatarIsQuiet (updateAnalysis (Some t) samples (updates cs (updateAnalysis (Some t0) samples0 s)))
       \<and> \<not> avatarIsQuiet (updateAnalysis t' samples'
           (updateAnalysis (Some t) samples (updates cs (updateAnalysis (Some t0) samples0 s))))"
proof -
  let ?s1 = "updateAnalysis (Some t0) samples0 s"
  let ?s2 = "updates cs ?s1"
  let ?s3 = "updateAnalysis (Some t) samples ?s2"
  have s1: "analyser ?s1" "\<not> avatarIsQuiet ?s1" "lastSeenVolume ?s1 = Some t0"
    using assms(1,2,3) by (simp_all add: quiet_updateAnalysis lastSeen_updateAnalysis)
  have s2: "\<not> avatarIsQuiet ?s2" "lastSeenVolume ?s2 = Some t0" "analyser ?s2"
    using within_grace_stays_active [OF s1 assms(4)] by simp_all
  have "truthy (Some t)" "truthy (lastSeenVolume ?s2)" "lastSeen_before (lastSeenVolume ?s2) (Some t)"
    using assms(2,5) s2(2) by (simp_all add: DISABLE_GRACE_PERIOD_MS_def)
  then have s3: "avatarIsQuiet ?s3"
    using s2(3) assms(6) by (simp add: quiet_updateAnalysis)
  have "analyser ?s3" using s2(3) by simp
  then have "\<not> avatarIsQuiet (updateAnalysis t' samples' ?s3)"
    using assms(7) by (simp add: quiet_updateAnalysis)
  with s2(1) s3 show ?thesis by simp
qed


theorem grace_period_then_quiet_witness:
  "analyser faded \<and> (0 :: real) < 1
   \<and> \<not> below_threshold (updateAnalysis (Some 1) silence faded)
   \<and> quiet_calls 1 [(Some 5000, silence)] (updateAnalysis (Some 1) silence faded)
   \<and> DISABLE_GRACE_PERIOD_MS < 10002 - 1
   \<and> below_threshold (updateAnalysis (Some 10002) silence
         (updates [(Some 5000, silence)] (updateAnalysis (Some 1) silence faded)))
   \<and> \<not> below_threshold (updateAnalysis None full_scale (updateAnalysis (Some 10002) silence
         (updates [(Some 5000, silence)] (updateAnalysis (Some 1) silence faded))))
   \<and> \<not> avatarIsQuiet (updates [(Some 5000, silence)] (updateAnalysis (Some 1) silence faded))
   \<and> avatarIsQuiet (updateAnalysis (Some 10002) silence
         (updates [(Some 5000, silence)] (updateAnalysis (Some 1) silence faded)))
   \<and> \<not> avatarIsQuiet (updateAnalysis None full_scale (updateAnalysis (Some 10002) silence
         (updates [(Some 5000, silence)] (updateAnalysis (Some 1) silence faded))))"
proof -
  have h1: "analyser faded" by (rule faded_fields)
  have h2: "(0 :: real) < 1" by simp
  have h3: "\<not> below_threshold (updateAnalysis (Some 1) silence faded)" by (rule faded_once)
  have h4: "quiet_calls 1 [(Some 5000, silence)] (updateAnalysis (Some 1) silence faded)"
    by (simp add: trace_simps)
  have h5: "DISABLE_GRACE_PERIOD_MS < 10002 - 1" by (simp add: DISABLE_GRACE_PERIOD_MS_def)
  have h6: "below_threshold (updateAnalysis (Some 10002) silence
         (updates [(Some 5000, silence)] (updateAnalysis (Some 1) silence faded)))"
    by (simp add: trace_simps)
  have h7: "\<not> below_threshold (updateAnalysis None full_scale (updateAnalysis (Some 10002) silence
         (updates [(Some 5000, silence)] (updateAnalysis (Some 1) silence faded))))"
    by (simp add: trace_simps)
  from grace_period_then_quiet [OF h1 h2 h3 h4 h5 h6 h7] h1 h2 h3 h4 h5 h6 h7
  show ?thesis by blast
qed

text \<open>
  The claim as stated starts the timer at 0 ms and expects the avatar quiet at 10000 ms.
  After speech has faded, a call at 0 ms is still at the threshold, calls at 5000 ms and
  10000 ms are below it, and the avatar is not quiet: 0 is not recorded as a timestamp.
  The same calls at 1 ms, 5000 ms and 10001 ms, 10000 ms after the recorded timestamp,
  leave it not quiet too: the comparison is strict.
\<close>

theorem grace_period_counterexample:
  "\<not> below_threshold (updateAnalysis (Some 0) silence faded)
   \<and> below_threshold (updateAnalysis (Some 5000) silence (updateAnalysis (Some 0) silence faded))
   \<and> below_threshold (updateAnalysis (Some 10000) silence
         (updateAnalysis (Some 5000) silence (updateAnalysis (Some 0) silence faded)))
   \<and> \<not> avatarIsQuiet (updateAnalysis (Some 10000) silence
         (updateAnalysis (Some 5000) silence (updateAnalysis (Some 0) silence faded)))
   \<and> \<not> below_threshold (updateAnalysis (Some 1) silence faded)
   \<and> below_threshold (updateAnalysis (Some 5000) silence (updateAnalysis (Some 1) silence faded))
   \<and> below_threshold (updateAnalysis (Some 10001) silence
         (updateAnalysis (Some 5000) silence (updateAnalysis (Some 1) silence faded)))
   \<and> \<not> avatarIsQuiet (updateAnalysis (Some 10001) silence
         (updateAnalysis (Some 5000) silence (updateAnalysis (Some 1) silence faded)))"
  by (simp add: trace_simps)

section \<open>C2: updates without a timestamp\<close>

text \<open>
  C2: an update without a timestamp, called directly or through \<open>_runScheduledWork\<close>,
  never turns a not quiet avatar quiet, and neither does any sequence of such updates;
  an update turns a not quiet avatar quiet only when it carries a timestamp, a last
  timestamp above the threshold was recorded, more than \<open>DISABLE_GRACE_PERIOD_MS\<close> lie
  between the two, and the volume is below the threshold; an update without a timestamp
  that finds the volume at or above the threshold leaves the avatar not quiet.
\<close>

theorem quiet_only_on_timestamped_update:
  "(\<not> avatarIsQuiet s \<longrightarrow> \<not> avatarIsQuiet (updateAnalysis None samples s))
   \<and> (\<not> avatarIsQuiet s \<longrightarrow> \<not> avatarIsQuiet (runScheduledWork samples s))
   \<and> ((\<forall>c \<in> set cs. fst c = None) \<and> \<not> avatarIsQuiet s \<longrightarrow> \<not> avatarIsQuiet (updates cs s))
   \<and> (\<not> avatarIsQuiet s \<and> avatarIsQuiet (updateAnalysis t samples s) \<longrightarrow>
        (\<exists>tv l. t = Some tv \<and> lastSeenVolume s = Some l
                \<and> DISABLE_GRACE_PERIOD_MS < tv - l
                \<and> below_threshold (updateAnalysis t samples s)))
   \<and> (analyser s \<and> \<not> below_threshold (updateAnalysis None samples s) \<longrightarrow>
        \<not> avatarIsQuiet (updateAnalysis None samples s))
   \<and> (analyser s \<and> \<not> below_threshold (runScheduledWork samples s) \<longrightarrow>
        \<not> avatarIsQuiet (runScheduledWork samples s))"
proof -
  have a: "avatarIsQuiet (updateAnalysis None samples s) \<longrightarrow> avatarIsQuiet s"
    by (cases "analyser s") (simp_all add: quiet_updateAnalysis updateAnalysis_no_analyser)
  have b: "avatarIsQuiet (runScheduledWork samples s) \<longrightarrow> avatarIsQuiet s"
    using a by (simp add: runScheduledWork_def)
  have c: "(\<forall>c \<in> set cs. fst c = None) \<and> \<not> avatarIsQuiet s \<longrightarrow> \<not> avatarIsQuiet (updates cs s)"
    using untimestamped_keeps_active [of cs s] by blast
  have d: "\<not> avatarIsQuiet s \<and> avatarIsQuiet (updateAnalysis t samples s) \<longrightarrow>
        (\<exists>tv l. t = Some tv \<and> lastSeenVolume s = Some l
                \<and> DISABLE_GRACE_PERIOD_MS < tv - l
                \<and> below_threshold (updateAnalysis t samples s))"
  proof (cases "analyser s")
    case False
    then show ?thesis by (simp add: updateAnalysis_no_analyser)
  next
    case True
    show ?thesis
    proof (intro impI, elim conjE)
      assume nq: "\<not> avatarIsQuiet s" and q: "avatarIsQuiet (updateAnalysis t samples s)"
      from q nq True have below: "below_threshold (updateAnalysis t samples s)"
        and lb: "lastSeen_before (lastSeenVolume s) t"
        by (simp_all add: quiet_updateAnalysis)
      from lb obtain l tv where "lastSeenVolume s = Some l" "t = Some tv"
        "l < tv - DISABLE_GRACE_PERIOD_MS"
        by (cases "lastSeenVolume s"; cases t) simp_all
      with below show "\<exists>tv l. t = Some tv \<and> lastSeenVolume s = Some l
                \<and> DISABLE_GRACE_PERIOD_MS < tv - l
                \<and> below_threshold (updateAnalysis t samples s)"
        by auto
    qed
  qed
  have e: "analyser s \<and> \<not> below_threshold (updateAnalysis None samples s) \<longrightarrow>
        \<not> avatarIsQuiet (updateAnalysis None samples s)"
    by (simp add: quiet_updateAnalysis)
  have f: "analyser s \<and> \<not> below_threshold (runScheduledWork samples s) \<longrightarrow>
        \<not> avatarIsQuiet (runScheduledWork samples s)"
    using e by (simp add: runScheduledWork_def)
  from a b c d e f show ?thesis by blast
qed

theorem quiet_only_on_timestamped_update_witness:
  "\<not> avatarIsQuiet still_active
   \<and> below_threshold (updateAnalysis None silence still_active)
   \<and> \<not> avatarIsQuiet (updateAnalysis None silence still_active)
   \<and> \<not> avatarIsQuiet (runScheduledWork silence still_active)
   \<and> fst ` set [(None, silence), (None :: real option, silence)] = {None}
   \<and> \<not> avatarIsQuiet (updates [(None, silence), (None, silence)] still_active)
   \<and> avatarIsQuiet (updateAnalysis (Some 10002) silence still_active)
   \<and> lastSeenVolume still_active = Some 1
   \<and> DISABLE_GRACE_PERIOD_MS < 10002 - 1
   \<and> analyser gone_quiet \<and> avatarIsQuiet gone_quiet
   \<and> \<not> below_threshold (updateAnalysis None full_scale gone_quiet)
   \<and> \<not> avatarIsQuiet (updateAnalysis None full_scale gone_quiet)
   \<and> \<not> below_threshold (runScheduledWork full_scale gone_quiet)
   \<and> \<not> avatarIsQuiet (runScheduledWork full_scale gone_quiet)"
  using quiet_only_on_timestamped_update
      [of still_active silence "[(None, silence), (None, silence)]" "Some 10002"]
    quiet_only_on_timestamped_update [of gone_quiet full_scale "[]" None]
  by (simp add: runScheduledWork_def gone_quiet_fields still_active_fields trace_simps)

section \<open>C10: the timestamp 0\<close>

text \<open>
  C10: an update with the timestamp 0 does what an update without timestamp does, also
  through \<open>tick\<close>: it does not record 0 as the last timestamp above the threshold and
  it does not turn a not quiet avatar quiet. A recorded last timestamp of 0 counts as
  none: the update is the one that a state with no recorded timestamp gets, and it never
  turns a not quiet avatar quiet.
\<close>

theorem timestamp_zero_is_no_timestamp:
  "updateAnalysis (Some 0) samples s = updateAnalysis None samples s
   \<and> naa_tick 0 samples s = (if avatarIsQuiet s then s else updateAnalysis None samples s)
   \<and> lastSeenVolume (updateAnalysis (Some 0) samples s) = lastSeenVolume s
   \<and> (\<not> avatarIsQuiet s \<longrightarrow> \<not> avatarIsQuiet (updateAnalysis (Some 0) samples s))
   \<and> (lastSeenVolume s = Some 0 \<longrightarrow>
        updateAnalysis t samples s
          = (updateAnalysis t samples (s\<lparr>lastSeenVolume := None\<rparr>))
              \<lparr>lastSeenVolume := lastSeenVolume (updateAnalysis t samples s)\<rparr>)
   \<and> (lastSeenVolume s = Some 0 \<and> \<not> avatarIsQuiet s \<longrightarrow>
        \<not> avatarIsQuiet (updateAnalysis t samples s))"
proof -
  have a: "updateAnalysis (Some 0) samples s = updateAnalysis None samples s"
    by (simp add: updateAnalysis_def Let_def)
  have b: "lastSeenVolume (updateAnalysis None samples s) = lastSeenVolume s"
    by (cases "analyser s") (simp_all add: lastSeen_updateAnalysis updateAnalysis_no_analyser)
  have c: "avatarIsQuiet (updateAnalysis None samples s) \<longrightarrow> avatarIsQuiet s"
    by (cases "analyser s") (simp_all add: quiet_updateAnalysis updateAnalysis_no_analyser)
  have d: "lastSeenVolume s = Some 0 \<longrightarrow>
        updateAnalysis t samples s
          = (updateAnalysis t samples (s\<lparr>lastSeenVolume := None\<rparr>))
              \<lparr>lastSeenVolume := lastSeenVolume (updateAnalysis t samples s)\<rparr>"
    by (simp add: updateAnalysis_def Let_def)
  have e: "lastSeenVolume s = Some 0 \<and> avatarIsQuiet (updateAnalysis t samples s) \<longrightarrow> avatarIsQuiet s"
    by (cases "analyser s") (auto simp add: quiet_updateAnalysis updateAnalysis_no_analyser)
  from a b c d e show ?thesis by (auto simp add: naa_tick_def)
qed

theorem timestamp_zero_is_no_timestamp_witness:
  "updateAnalysis (Some 0) full_scale still_active = updateAnalysis None full_scale still_active
   \<and> lastSeenVolume (updateAnalysis (Some 0) full_scale still_active) = Some 1
   \<and> \<not> avatarIsQuiet still_active
   \<and> \<not> avatarIsQuiet (updateAnalysis (Some 0) silence still_active)
   \<and> lastSeenVolume (still_active\<lparr>lastSeenVolume := Some 0\<rparr>) = Some 0
   \<and> \<not> avatarIsQuiet (still_active\<lparr>lastSeenVolume := Some 0\<rparr>)
   \<and> below_threshold
        (updateAnalysis (Some 20000) silence (still_active\<lparr>lastSeenVolume := Some 0\<rparr>))
   \<and> \<not> avatarIsQuiet
        (updateAnalysis (Some 20000) silence (still_active\<lparr>lastSeenVolume := Some 0\<rparr>))"
  using timestamp_zero_is_no_timestamp [of full_scale still_active None]
    timestamp_zero_is_no_timestamp [of silence still_active None]
    timestamp_zero_is_no_timestamp
      [of silence "still_active\<lparr>lastSeenVolume := Some 0\<rparr>" "Some 20000"]
  by (simp add: still_active_fields trace_simps)

section \<open>C4: the volume of a buffer\<close>

text \<open>
  C4, as the code has it: for every buffer that is not empty, \<open>getVolume\<close> returns the
  root mean square of the normalised samples \<open>(sample - 128) / 128\<close> when it is at least
  \<open>MIN_VOLUME_THRESHOLD\<close> (0.01) and exactly 0 when it is below; for every non-empty
  buffer whose samples all equal 128 it returns exactly 0.
\<close>

theorem getVolume_is_clamped_rms:
  "levels \<noteq> [] \<Longrightarrow>
     getVolume levels = (if rms levels < MIN_VOLUME_THRESHOLD then Num 0 else Num (rms levels))
     \<and> (set levels \<subseteq> {128} \<longrightarrow> getVolume levels = Num 0)"
  using getVolume_rms [of levels] rms_silent [of levels]
  by (simp add: MIN_VOLUME_THRESHOLD_def)

theorem getVolume_is_clamped_rms_witness:
  "[0, 0] \<noteq> ([] :: levels) \<and> getVolume [0, 0] = Num 1
   \<and> getVolume [128, 129, 128, 128] = Num 0
   \<and> set [128, 128, 128] \<subseteq> {128 :: 8 word} \<and> getVolume [128, 128, 128] = Num 0"
  using getVolume_is_clamped_rms [of "[0, 0]"] getVolume_is_clamped_rms [of "[128, 129, 128, 128]"]
    getVolume_is_clamped_rms [of "[128, 128, 128]"]
  by (simp add: rms_two_zero rms_one_off rms_three_silent MIN_VOLUME_THRESHOLD_def)

text \<open>
  The claim as stated covers buffers of any length. The empty buffer has all its samples
  equal to 128, and its volume is not 0.
\<close>

theorem getVolume_all_128_counterexample:
  "set ([] :: levels) \<subseteq> {128} \<and> getVolume [] \<noteq> Num 0"
  by (simp add: getVolume_def)

section \<open>Lemmas on the exceptions and on NaN\<close>

lemma member_of_present [simp]: "member_of True v = Inr v"
  by (simp add: member_of_def)

lemma updateAnalysis_call_returns:
  "updateAnalysis_call t samples s = Inr (updateAnalysis t samples s)"
  by (simp add: updateAnalysis_call_def updateAnalysis_no_analyser)

lemma laa_analyse_returns: "\<exists>s'. laa_analyse samples s = Inr s'"
  by (simp add: laa_analyse_def Let_def)

lemma laa_tick_returns: "\<exists>r. laa_tick adapter samples s = Inr r"
proof -
  obtain s1 where "laa_analyse samples (s\<lparr>analyser := False, stream := False\<rparr>) = Inr s1"
    using laa_analyse_returns by blast
  moreover obtain s2 where "laa_analyse samples s = Inr s2"
    using laa_analyse_returns by blast
  ultimately show ?thesis by (simp add: laa_tick_def)
qed

lemma laa_tick_resumed_returns: "\<exists>s'. laa_tick_resumed resolved samples s = Inr s'"
  using laa_analyse_returns [of samples "s\<lparr>stream := resolved, analyser := True\<rparr>"]
  by (auto simp add: laa_tick_resumed_def Let_def)

lemma NaN_stays:
  assumes "analyser s" "prevVolume s = NaN"
  shows "volume (updateAnalysis t samples s) = NaN"
    and "prevVolume (updateAnalysis t samples s) = NaN"
    and "\<not> avatarIsQuiet (updateAnalysis t samples s)"
proof -
  show v: "volume (updateAnalysis t samples s) = NaN"
    using assms by (cases "getVolume samples") (simp_all add: volume_updateAnalysis)
  then show "prevVolume (updateAnalysis t samples s) = NaN"
    using assms(1) by (simp add: prevVolume_updateAnalysis)
  show "\<not> avatarIsQuiet (updateAnalysis t samples s)"
    using assms(1) v by (simp add: quiet_updateAnalysis below_threshold_def)
qed

lemma finite_stays:
  assumes "analyser s" "smoothing s = 3 / 10" "prevVolume s = Num v" "0 \<le> v" "v \<le> 1"
    and "samples \<noteq> []"
  shows "\<exists>v'. volume (updateAnalysis t samples s) = Num v' \<and> 0 \<le> v' \<and> v' \<le> 1"
proof -
  from getVolume_finite [OF assms(6)] obtain r
    where r: "getVolume samples = Num r" "0 \<le> r" "r \<le> 1" by blast
  have "volume (updateAnalysis t samples s) = Num (3 / 10 * r + 7 / 10 * v)"
    by (simp add: volume_updateAnalysis [OF assms(1)] assms(2,3) r(1))
  moreover have "0 \<le> 3 / 10 * r + 7 / 10 * v" "3 / 10 * r + 7 / 10 * v \<le> 1"
    using r(2,3) assms(4,5) by simp_all
  ultimately show ?thesis by blast
qed


text \<open>The system with one subscriber, and what its tick leaves.\<close>

lemma listening_tick:
  "laa_tick True full_scale (subscribe (2 :: nat) laa_init) = Inr (Awaiting (subscribe 2 laa_init))"
  by (simp add: laa_tick_def subscribe_def laa_init_def)

lemma listening_resumed:
  "laa_tick_resumed True full_scale (subscribe (2 :: nat) laa_init)
     = Inr ((subscribe 2 laa_init)
          \<lparr>volume := Num (3 / 10), prevVolume := Num (3 / 10), immediateVolume := Num 1,
           analyser := True, stream := True\<rparr>)"
  by (simp add: laa_tick_resumed_def laa_analyse_def subscribe_def laa_init_def Let_def
      getVolume_full_scale)

section \<open>C5: the empty buffer\<close>

text \<open>
  C5, as the code has it: for the zero-length buffer \<open>getVolume\<close> raises nothing and
  returns NaN (0 / 0), not 0; for every buffer that is not empty it returns a finite
  number from 0 to 1. No exception propagates out of an update call, whatever the buffer
  and the state: \<open>_updateAnalysis\<close>, \<open>tick\<close> and \<open>_runScheduledWork\<close> of the networked
  analyser return, as do the tick of the local analyser up to its \<open>await\<close> and its rest
  after the \<open>await\<close>; the guard on \<open>this.analyser\<close> is what keeps the TypeError of a
  component without analyser from being raised. An update of the networked analyser that
  reads the zero-length buffer stores NaN as volume and leaves the avatar not quiet; from
  then on every update stores NaN again, whatever the buffer, and leaves the avatar not
  quiet. An update that reads a buffer that is not empty, the stored volume being from 0
  to 1, stores a volume from 0 to 1.
\<close>

theorem getVolume_empty_is_NaN:
  "getVolume [] = NaN
   \<and> (levels \<noteq> [] \<longrightarrow> (\<exists>r. getVolume levels = Num r \<and> 0 \<le> r \<and> r \<le> 1))
   \<and> updateAnalysis_call t samples s = Inr (updateAnalysis t samples s)
   \<and> naa_tick_call tv samples s = Inr (naa_tick tv samples s)
   \<and> runScheduledWork_call samples s = Inr (runScheduledWork samples s)
   \<and> (\<not> analyser s \<longrightarrow>
        member_of (analyser s) samples = Inl TypeError \<and> updateAnalysis_call t samples s = Inr s)
   \<and> (\<exists>r. laa_tick adapter samples l = Inr r)
   \<and> (\<exists>l'. laa_tick_resumed resolved samples l = Inr l')
   \<and> (analyser s \<longrightarrow>
        volume (updateAnalysis t [] s) = NaN \<and> prevVolume (updateAnalysis t [] s) = NaN
        \<and> \<not> avatarIsQuiet (updateAnalysis t [] s))
   \<and> (analyser s \<and> prevVolume s = NaN \<longrightarrow>
        volume (updateAnalysis t samples s) = NaN \<and> prevVolume (updateAnalysis t samples s) = NaN
        \<and> \<not> avatarIsQuiet (updateAnalysis t samples s))
   \<and> (analyser s \<and> smoothing s = 3 / 10 \<and> prevVolume s = Num v \<and> 0 \<le> v \<and> v \<le> 1
        \<and> samples \<noteq> [] \<longrightarrow>
        (\<exists>v'. volume (updateAnalysis t samples s) = Num v' \<and> 0 \<le> v' \<and> v' \<le> 1))"
proof -
  have a: "getVolume [] = NaN" by (simp add: getVolume_def)
  have b: "levels \<noteq> [] \<longrightarrow> (\<exists>r. getVolume levels = Num r \<and> 0 \<le> r \<and> r \<le> 1)"
    using getVolume_finite [of levels] by blast
  have c: "updateAnalysis_call t' samples s = Inr (updateAnalysis t' samples s)" for t'
    by (rule updateAnalysis_call_returns)
  have d: "naa_tick_call tv samples s = Inr (naa_tick tv samples s)"
    by (simp add: naa_tick_call_def naa_tick_def c)
  have e: "runScheduledWork_call samples s = Inr (runScheduledWork samples s)"
    by (simp add: runScheduledWork_call_def runScheduledWork_def c)
  have f: "\<not> analyser s \<longrightarrow>
        member_of (analyser s) samples = Inl TypeError \<and> updateAnalysis_call t samples s = Inr s"
    by (simp add: member_of_def updateAnalysis_call_def)
  have g: "analyser s \<longrightarrow>
        volume (updateAnalysis t [] s) = NaN \<and> prevVolume (updateAnalysis t [] s) = NaN
        \<and> \<not> avatarIsQuiet (updateAnalysis t [] s)"
    by (simp add: getVolume_def updateAnalysis_def Let_def)
  have h: "analyser s \<and> prevVolume s = NaN \<longrightarrow>
        volume (updateAnalysis t samples s) = NaN \<and> prevVolume (updateAnalysis t samples s) = NaN
        \<and> \<not> avatarIsQuiet (updateAnalysis t samples s)"
    using NaN_stays [of s t samples] by blast
  have i: "analyser s \<and> smoothing s = 3 / 10 \<and> prevVolume s = Num v \<and> 0 \<le> v \<and> v \<le> 1
        \<and> samples \<noteq> [] \<longrightarrow>
        (\<exists>v'. volume (updateAnalysis t samples s) = Num v' \<and> 0 \<le> v' \<and> v' \<le> 1)"
    using finite_stays [of s v samples t] by blast
  from a b c [of t] d e f laa_tick_returns [of adapter samples l]
    laa_tick_resumed_returns [of resolved samples l] g h i
  show ?thesis by blast
qed

theorem getVolume_empty_is_NaN_witness:
  "[0, 0] \<noteq> ([] :: levels) \<and> (\<exists>r. getVolume [0, 0] = Num r \<and> 0 \<le> r \<and> r \<le> 1)
   \<and> \<not> analyser (fst (naa_init () []))
   \<and> member_of (analyser (fst (naa_init () []))) full_scale = Inl TypeError
   \<and> updateAnalysis_call (Some 5) full_scale (fst (naa_init () [])) = Inr (fst (naa_init () []))
   \<and> analyser ready
   \<and> updateAnalysis_call (Some 5) [] ready = Inr (updateAnalysis (Some 5) [] ready)
   \<and> volume (updateAnalysis (Some 5) [] ready) = NaN
   \<and> \<not> avatarIsQuiet (updateAnalysis (Some 5) [] ready)
   \<and> prevVolume (updateAnalysis (Some 5) [] ready) = NaN
   \<and> volume (updateAnalysis (Some 6) full_scale (updateAnalysis (Some 5) [] ready)) = NaN
   \<and> smoothing ready = 3 / 10 \<and> prevVolume ready = Num 0 \<and> full_scale \<noteq> []
   \<and> (\<exists>v'. volume (updateAnalysis (Some 5) full_scale ready) = Num v' \<and> 0 \<le> v' \<and> v' \<le> 1)
   \<and> laa_tick True full_scale (subscribe (2 :: nat) laa_init)
       = Inr (Awaiting (subscribe 2 laa_init))
   \<and> laa_tick_resumed True full_scale (subscribe (2 :: nat) laa_init)
       = Inr ((subscribe 2 laa_init)
            \<lparr>volume := Num (3 / 10), prevVolume := Num (3 / 10), immediateVolume := Num 1,
             analyser := True, stream := True\<rparr>)"
proof -
  let ?s0 = "fst (naa_init () [])"
  let ?sN = "updateAnalysis (Some 5) [] ready"
  have h0: "\<not> analyser ?s0" by (simp add: naa_init_def)
  have h1: "analyser ready" "smoothing ready = 3 / 10" "prevVolume ready = Num 0"
    by (rule ready_fields)+
  have h2: "full_scale \<noteq> []" by (simp add: full_scale_def)
  have h3: "[0, 0] \<noteq> ([] :: levels)" by simp
  note A = getVolume_empty_is_NaN [of "[0, 0]" "Some 5" full_scale ?s0 5 True
      "subscribe (2 :: nat) laa_init" True 0]
  note B = getVolume_empty_is_NaN [of "[0, 0]" "Some 5" full_scale ready 5 True
      "subscribe (2 :: nat) laa_init" True 0]
  note C = getVolume_empty_is_NaN [of "[0, 0]" "Some 5" "[]" ready 5 True
      "subscribe (2 :: nat) laa_init" True 0]
  note D = getVolume_empty_is_NaN [of "[0, 0]" "Some 6" full_scale ?sN 5 True
      "subscribe (2 :: nat) laa_init" True 0]
  from A h3 have w1: "\<exists>r. getVolume [0, 0] = Num r \<and> 0 \<le> r \<and> r \<le> 1" by blast
  from A h0 have w2: "member_of (analyser ?s0) full_scale = Inl TypeError"
    "updateAnalysis_call (Some 5) full_scale ?s0 = Inr ?s0" by blast+
  from C have w3: "updateAnalysis_call (Some 5) [] ready = Inr ?sN" by blast
  from C h1(1) have w4: "volume ?sN = NaN" "\<not> avatarIsQuiet ?sN" "prevVolume ?sN = NaN"
    by blast+
  have "analyser ?sN" using h1(1) by simp
  with D w4(3) have w5: "volume (updateAnalysis (Some 6) full_scale ?sN) = NaN" by blast
  from B h1 h2
  have w6: "\<exists>v'. volume (updateAnalysis (Some 5) full_scale ready) = Num v' \<and> 0 \<le> v' \<and> v' \<le> 1"
    by simp
  from h3 w1 h0 w2 h1 w3 w4 w5 h2 w6 listening_tick listening_resumed show ?thesis by blast
qed

text \<open>The zero-length buffer is not treated as volume 0.\<close>

theorem getVolume_empty_counterexample:
  "getVolume [] = NaN \<and> NaN \<noteq> Num 0"
  by (simp add: getVolume_def)

section \<open>C3: the callback given to the scheduler\<close>

text \<open>
  C3 asks that \<open>remove\<close> unschedules the callback that \<open>init\<close> scheduled. In the code
  \<open>init\<close> schedules the bound \<open>_updateAnalysis\<close> and \<open>remove\<close> unschedules the bound
  \<open>_runScheduledWork\<close>, another callback, which was never scheduled: after \<open>init\<close> and
  \<open>remove\<close> on an empty scheduler the registration of \<open>_updateAnalysis\<close> is still there.
\<close>

theorem remove_leaves_registration:
  "((e, M_updateAnalysis), ''audio-analyser'') \<in> set (naa_remove e (snd (naa_init e sch)))
   \<and> snd (naa_init e []) = [((e, M_updateAnalysis), ''audio-analyser'')]
   \<and> naa_remove e (snd (naa_init e [])) = [((e, M_updateAnalysis), ''audio-analyser'')]
   \<and> (e, M_runScheduledWork) \<noteq> (e, M_updateAnalysis)"
  by (simp add: naa_remove_def naa_init_def schedule_def unschedule_def)

theorem remove_leaves_registration_witness:
  "((7 :: nat, M_updateAnalysis), ''audio-analyser'') \<in> set (naa_remove 7 (snd (naa_init 7 [])))
   \<and> naa_remove (7 :: nat) (snd (naa_init 7 [])) = [((7, M_updateAnalysis), ''audio-analyser'')]"
  using remove_leaves_registration [of "7 :: nat" "[]"] by blast

section \<open>Lemmas on the scale\<close>





lemma nonneg_simps [simp]:
  "nonneg Infinity" "\<not> nonneg NegInfinity" "\<not> nonneg NotANumber"
  "nonneg (Finite a) = (0 \<le> a \<and> a \<le> MAX_VALUE)"
  by (simp_all add: nonneg_def)
























section \<open>C7: the scale of the audio feedback\<close>




section \<open>Lemmas on the mic button\<close>

lemma immediateVolume_subscribe [simp]:
  "immediateVolume (subscribe ii a) = immediateVolume a"
  "immediateVolume (unsubscribe ii a) = immediateVolume a"
  by (simp_all add: subscribe_def unsubscribe_def Let_def)

section \<open>C6: the level when nothing has been heard\<close>

text \<open>
  C6, as the code has it: no division is made when the level is selected, so a peak of 0
  raises nothing. With \<open>loudest = 0\<close> every comparison \<open>volume < loudest * f\<close> is false
  for a volume that is not negative, and the last branch selects level 7, the image
  "mic-level-7.png"; level 1 is selected exactly when \<open>volume < loudest * 0.1\<close>. A tick
  of a mic button with \<open>loudest = 0\<close> and \<open>decayingVolume = 0\<close> that hears nothing
  new keeps \<open>loudest = 0\<close> and sets the image "mic-level-7.png".
\<close>

theorem level_at_peak_zero:
  "(0 \<le> vol \<longrightarrow> level vol 0 = 7 \<and> micLevels ! level vol 0 = ''mic-level-7.png'')
   \<and> (level vol loud = 1) = (vol < loud * (1 / 10))
   \<and> (loudest s = 0 \<and> decayingVolume s = 0
        \<and> \<not> exceeds (immediateVolume a) (decayingVolume s) \<longrightarrow>
        loudest (fst (mb_tick self visible (Some a) s)) = 0
        \<and> prevImage (fst (mb_tick self visible (Some a) s)) = ''mic-level-7.png'')"
proof -
  have a: "0 \<le> vol \<longrightarrow> level vol 0 = 7 \<and> micLevels ! level vol 0 = ''mic-level-7.png''"
    by (simp add: level_def micLevels_def)
  have b: "(level vol loud = 1) = (vol < loud * (1 / 10))"
    by (simp add: level_def)
  have c: "loudest s = 0 \<and> decayingVolume s = 0
        \<and> \<not> exceeds (immediateVolume a) (decayingVolume s) \<longrightarrow>
        loudest (fst (mb_tick self visible (Some a) s)) = 0
        \<and> prevImage (fst (mb_tick self visible (Some a) s)) = ''mic-level-7.png''"
    by (cases "immediateVolume a")
      (auto simp add: mb_tick_def decay_def Let_def level_def micLevels_def split: number.splits)
  from a b c show ?thesis by blast
qed

theorem level_at_peak_zero_witness:
  "(0 :: real) \<le> 0 \<and> level 0 0 = 7
   \<and> loudest mb_init = 0 \<and> decayingVolume mb_init = 0
   \<and> \<not> exceeds (immediateVolume (laa_init :: nat local_audio_analyser)) (decayingVolume mb_init)
   \<and> loudest (fst (mb_tick (0 :: nat) True (Some laa_init) mb_init)) = 0
   \<and> prevImage (fst (mb_tick (0 :: nat) True (Some laa_init) mb_init)) = ''mic-level-7.png''"
  using level_at_peak_zero [of 0 0 mb_init "laa_init :: nat local_audio_analyser" 0 True]
  by (simp add: mb_init_def laa_init_def exceeds_def)

text \<open>
  The first tick of a mic button, the analyser never having heard a sound: the peak is 0
  and the image set is "mic-level-7.png", not the image of level 1.
\<close>

theorem level_at_peak_zero_counterexample:
  "loudest (fst (mb_tick (0 :: nat) True (Some laa_init) mb_init)) = 0
   \<and> icon_button (fst (mb_tick (0 :: nat) True (Some laa_init) mb_init)) = Some ''mic-level-7.png''
   \<and> micLevels ! 1 = ''mic-level-1.png''"
  by (simp add: mb_tick_def decay_def Let_def level_def micLevels_def mb_init_def laa_init_def
      subscribe_def exceeds_def)

section \<open>Lemmas on the decaying volume\<close>

lemma exceedsE:
  assumes "exceeds imm d"
  obtains v where "imm = Num v" "d < v"
  using assms by (cases imm) (simp_all add: exceeds_def)

lemma mb_tick_attack:
  assumes "immediateVolume a = Num v" "decayingVolume s < v"
  shows "decayingVolume (fst (mb_tick self visible (Some a) s)) = v"
    and "loudest (fst (mb_tick self visible (Some a) s)) = max (loudest s) v"
    and "mb_smoothing (fst (mb_tick self visible (Some a) s)) = mb_smoothing s"
  using assms by (simp_all add: mb_tick_def attack_def exceeds_def Let_def)

lemma mb_tick_decay:
  assumes "\<not> exceeds (immediateVolume a) (decayingVolume s)"
  shows "decayingVolume (fst (mb_tick self visible (Some a) s))
           = (if decayingVolume s * mb_smoothing s < 1 / 1000 then 0
              else decayingVolume s * mb_smoothing s)"
    and "loudest (fst (mb_tick self visible (Some a) s)) = loudest s"
    and "mb_smoothing (fst (mb_tick self visible (Some a) s)) = mb_smoothing s"
  using assms
  by (cases "immediateVolume a"; simp add: mb_tick_def decay_def Let_def)+

lemma mb_tick_None [simp]: "mb_tick self visible None s = (s, None)"
  by (simp add: mb_tick_def)

text \<open>The invariant of the envelope.\<close>

lemma mb_tick_invariant:
  assumes "0 \<le> decayingVolume s" "decayingVolume s \<le> loudest s" "mb_smoothing s = 8 / 10"
  shows "0 \<le> decayingVolume (fst (mb_tick self visible a s))
         \<and> decayingVolume (fst (mb_tick self visible a s)) \<le> loudest (fst (mb_tick self visible a s))
         \<and> mb_smoothing (fst (mb_tick self visible a s)) = 8 / 10"
proof (cases a)
  case None
  then show ?thesis using assms by simp
next
  case (Some an)
  show ?thesis
  proof (cases "exceeds (immediateVolume an) (decayingVolume s)")
    case True
    then obtain v where v: "immediateVolume an = Num v" "decayingVolume s < v"
      by (rule exceedsE)
    show ?thesis using assms v(2) by (simp add: Some mb_tick_attack [OF v])
  next
    case False
    let ?d = "decayingVolume s"
    have d: "decayingVolume (fst (mb_tick self visible a s))
               = (if ?d * (8 / 10) < 1 / 1000 then 0 else ?d * (8 / 10))"
      and l: "loudest (fst (mb_tick self visible a s)) = loudest s"
      and m: "mb_smoothing (fst (mb_tick self visible a s)) = 8 / 10"
      using mb_tick_decay [OF False, of self visible] assms(3) by (simp_all add: Some)
    have "?d * (8 / 10) \<le> ?d" using assms(1) by simp
    then have "?d * (8 / 10) \<le> loudest s" using assms(2) by linarith
    moreover have "0 \<le> loudest s" using assms(1,2) by linarith
    moreover have "0 \<le> ?d * (8 / 10)" using assms(1) by simp
    ultimately show ?thesis unfolding d l m by simp
  qed
qed

lemma mb_tick_loudest_mono: "loudest s \<le> loudest (fst (mb_tick self visible a s))"
proof (cases a)
  case None
  then show ?thesis by simp
next
  case (Some an)
  show ?thesis
  proof (cases "exceeds (immediateVolume an) (decayingVolume s)")
    case True
    then obtain v where v: "immediateVolume an = Num v" "decayingVolume s < v"
      by (rule exceedsE)
    show ?thesis by (simp add: Some mb_tick_attack [OF v])
  next
    case False
    show ?thesis by (simp add: Some mb_tick_decay [OF False])
  qed
qed

lemma mb_ticks_loudest_mono: "loudest s \<le> loudest (mb_ticks self fs s)"
proof (induction fs arbitrary: s)
  case Nil
  show ?case by simp
next
  case (Cons f fs)
  obtain visible a where f: "f = (visible, a)" by (cases f)
  have "loudest s \<le> loudest (fst (mb_tick self visible a s))" by (rule mb_tick_loudest_mono)
  also have "\<dots> \<le> loudest (mb_ticks self fs (fst (mb_tick self visible a s)))" by (rule Cons.IH)
  finally show ?case by (simp add: f)
qed

lemma mb_ticks_invariant:
  assumes "0 \<le> decayingVolume s" "decayingVolume s \<le> loudest s" "mb_smoothing s = 8 / 10"
  shows "0 \<le> decayingVolume (mb_ticks self fs s)
         \<and> decayingVolume (mb_ticks self fs s) \<le> loudest (mb_ticks self fs s)
         \<and> mb_smoothing (mb_ticks self fs s) = 8 / 10"
  using assms
proof (induction fs arbitrary: s)
  case Nil
  then show ?case by simp
next
  case (Cons f fs)
  obtain visible a where f: "f = (visible, a)" by (cases f)
  from mb_tick_invariant [OF Cons.prems, of self visible a]
  show ?case using Cons.IH [of "fst (mb_tick self visible a s)"] by (simp add: f)
qed

lemma mb_init_invariant:
  "0 \<le> decayingVolume (mb_ticks self fs mb_init)
   \<and> decayingVolume (mb_ticks self fs mb_init) \<le> loudest (mb_ticks self fs mb_init)
   \<and> mb_smoothing (mb_ticks self fs mb_init) = 8 / 10"
  by (rule mb_ticks_invariant) (simp_all add: mb_init_def)

lemma decayed_Suc:
  assumes "0 \<le> d"
  shows "decayed (if d * (8 / 10) < 1 / 1000 then 0 else d * (8 / 10)) n = decayed d (Suc n)"
proof (cases "d * (8 / 10) < 1 / 1000")
  case True
  have "(8 / 10 :: real) ^ n \<le> 1" by (rule power_le_one) simp_all
  then have "d * (8 / 10) * (8 / 10) ^ n \<le> d * (8 / 10) * 1"
    using assms by (intro mult_left_mono) simp_all
  with True have "d * (8 / 10) * (8 / 10) ^ n < 1 / 1000" by simp
  then show ?thesis using True by (simp add: decayed_def mult.assoc)
next
  case False
  then show ?thesis by (simp add: decayed_def mult.assoc)
qed

lemma no_new_input_snapped:
  assumes "decayingVolume s = 0 \<or> 1 / 1000 \<le> decayingVolume s"
    and "mb_smoothing s = 8 / 10" "no_new_input self fs s"
  shows "decayingVolume (mb_ticks self fs s) = decayed (decayingVolume s) (length fs)"
  using assms
proof (induction fs arbitrary: s)
  case Nil
  then show ?case by (auto simp add: decayed_def)
next
  case (Cons f fs)
  obtain visible a where f: "f = (visible, a)" by (cases f)
  from Cons.prems(3) obtain an where a: "a = Some an"
    and quiet: "\<not> exceeds (immediateVolume an) (decayingVolume s)"
    and rest: "no_new_input self fs (fst (mb_tick self visible a s))"
    by (auto simp: f split: option.splits)
  let ?s' = "fst (mb_tick self visible a s)"
  have d: "decayingVolume ?s' = (if decayingVolume s * (8 / 10) < 1 / 1000 then 0
                                 else decayingVolume s * (8 / 10))"
    and sm: "mb_smoothing ?s' = 8 / 10"
    using mb_tick_decay [OF quiet, of self visible] Cons.prems(2) by (simp_all add: a)
  have nn: "0 \<le> decayingVolume s" using Cons.prems(1) by auto
  have sn: "decayingVolume ?s' = 0 \<or> 1 / 1000 \<le> decayingVolume ?s'" unfolding d by simp
  have "decayingVolume (mb_ticks self fs ?s') = decayed (decayingVolume ?s') (length fs)"
    using sn sm rest by (rule Cons.IH)
  also have "\<dots> = decayed (decayingVolume s) (Suc (length fs))"
    unfolding d using nn by (rule decayed_Suc)
  finally show ?case by (simp add: f)
qed

lemma no_new_input_decays:
  assumes "0 \<le> decayingVolume s" "mb_smoothing s = 8 / 10" "no_new_input self fs s" "fs \<noteq> []"
  shows "decayingVolume (mb_ticks self fs s) = decayed (decayingVolume s) (length fs)"
proof -
  from assms(4) obtain visible a gs where fs: "fs = (visible, a) # gs"
    by (cases fs) auto
  from assms(3) obtain an where a: "a = Some an"
    and quiet: "\<not> exceeds (immediateVolume an) (decayingVolume s)"
    and rest: "no_new_input self gs (fst (mb_tick self visible a s))"
    by (auto simp: fs split: option.splits)
  let ?s' = "fst (mb_tick self visible a s)"
  have d: "decayingVolume ?s' = (if decayingVolume s * (8 / 10) < 1 / 1000 then 0
                                 else decayingVolume s * (8 / 10))"
    and sm: "mb_smoothing ?s' = 8 / 10"
    using mb_tick_decay [OF quiet, of self visible] assms(2) by (simp_all add: a)
  have sn: "decayingVolume ?s' = 0 \<or> 1 / 1000 \<le> decayingVolume ?s'" unfolding d by simp
  have "decayingVolume (mb_ticks self gs ?s') = decayed (decayingVolume ?s') (length gs)"
    using sn sm rest by (rule no_new_input_snapped)
  also have "\<dots> = decayed (decayingVolume s) (Suc (length gs))"
    unfolding d using assms(1) by (rule decayed_Suc)
  finally show ?thesis by (simp add: fs)
qed

lemma decayed_31:
  assumes "0 \<le> d" "d \<le> 1" "31 \<le> n"
  shows "decayed d n = 0"
proof -
  have "(8 / 10 :: real) ^ n \<le> (8 / 10) ^ 31"
    using assms(3) by (intro power_decreasing) simp_all
  also have "\<dots> < 1 / 1000" by (simp add: power_divide)
  finally have p: "(8 / 10 :: real) ^ n < 1 / 1000" .
  have "d * (8 / 10) ^ n \<le> 1 * (8 / 10) ^ n"
    using assms(2) by (intro mult_right_mono) simp_all
  then have "d * (8 / 10) ^ n \<le> (8 / 10) ^ n" by (simp only: mult_1)
  then have "d * (8 / 10) ^ n < 1 / 1000" using p by (rule le_less_trans)
  then show ?thesis by (simp add: decayed_def)
qed

lemma decayed_eventually:
  assumes "0 \<le> d"
  shows "\<exists>N. \<forall>n\<ge>N. decayed d n = 0"
proof (cases "d = 0")
  case True
  then show ?thesis by (simp add: decayed_def)
next
  case False
  with assms have pos: "0 < d" by simp
  then have "0 < 1 / 1000 / d" by simp
  then obtain N where N: "(8 / 10 :: real) ^ N < 1 / 1000 / d"
    using real_arch_pow_inv [of "1 / 1000 / d" "8 / 10"] by auto
  have "decayed d n = 0" if "N \<le> n" for n
  proof -
    have "(8 / 10 :: real) ^ n \<le> (8 / 10) ^ N"
      using that by (intro power_decreasing) simp_all
    then have "(8 / 10 :: real) ^ n < 1 / 1000 / d" using N by (rule le_less_trans)
    then have "d * (8 / 10) ^ n < 1 / 1000"
      using pos by (simp add: pos_less_divide_eq mult_ac)
    then show ?thesis by (simp add: decayed_def)
  qed
  then show ?thesis by blast
qed


lemma silent_frames:
  assumes "immediateVolume a = Num 0" "0 \<le> decayingVolume s" "decayingVolume s \<le> loudest s"
    "mb_smoothing s = 8 / 10"
  shows "no_new_input self (replicate n (visible, Some a)) s"
  using assms(2-)
proof (induction n arbitrary: s)
  case 0
  show ?case by simp
next
  case (Suc n)
  have q: "\<not> exceeds (immediateVolume a) (decayingVolume s)"
    using Suc.prems(1) by (simp add: assms(1) exceeds_def)
  from mb_tick_invariant [OF Suc.prems, of self visible "Some a"]
  have "no_new_input self (replicate n (visible, Some a)) (fst (mb_tick self visible (Some a) s))"
    by (intro Suc.IH) simp_all
  with q show ?case by simp
qed

lemma heard_half_fields:
  "decayingVolume heard_half = 1 / 2" "loudest heard_half = 1 / 2"
  "mb_smoothing heard_half = 8 / 10"
proof -
  let ?a = "laa_init\<lparr>immediateVolume := Num (1 / 2)\<rparr> :: nat local_audio_analyser"
  have v: "immediateVolume ?a = Num (1 / 2)" "decayingVolume mb_init < 1 / 2"
    by (simp_all add: mb_init_def)
  show "decayingVolume heard_half = 1 / 2" "loudest heard_half = 1 / 2"
    "mb_smoothing heard_half = 8 / 10"
    using mb_tick_attack [OF v, of 0 True] by (simp_all add: heard_half_def mb_init_def)
qed

section \<open>C8: the peak and the decaying volume\<close>

text \<open>
  C8: over every sequence of ticks \<open>loudest\<close> never decreases; after every sequence of
  ticks since \<open>init\<close> the decaying volume is at most \<open>loudest\<close>; a tick whose immediate
  volume does not exceed the decaying volume multiplies it by 0.8 and sets it to exactly
  0 when the product is below 0.001; over \<open>n \<ge> 1\<close> such ticks the decaying volume \<open>d\<close>
  becomes \<open>d * 0.8 ^ n\<close>, or 0 when that is below 0.001; it is exactly 0 after 31 such
  ticks when \<open>d \<le> 1\<close>, and for every \<open>d\<close> there is a number of ticks from which it is 0.
\<close>

theorem envelope_below_peak_and_decays:
  "loudest s \<le> loudest (mb_ticks self fs s)
   \<and> decayingVolume (mb_ticks self gs mb_init) \<le> loudest (mb_ticks self gs mb_init)
   \<and> (\<not> exceeds (immediateVolume a) (decayingVolume (mb_ticks self gs mb_init)) \<longrightarrow>
        decayingVolume (fst (mb_tick self visible (Some a) (mb_ticks self gs mb_init)))
          = (if decayingVolume (mb_ticks self gs mb_init) * (8 / 10) < 1 / 1000 then 0
             else decayingVolume (mb_ticks self gs mb_init) * (8 / 10)))
   \<and> (no_new_input self fs (mb_ticks self gs mb_init) \<and> fs \<noteq> [] \<longrightarrow>
        decayingVolume (mb_ticks self fs (mb_ticks self gs mb_init))
          = decayed (decayingVolume (mb_ticks self gs mb_init)) (length fs))
   \<and> (no_new_input self fs (mb_ticks self gs mb_init)
        \<and> decayingVolume (mb_ticks self gs mb_init) \<le> 1 \<and> 31 \<le> length fs \<longrightarrow>
        decayingVolume (mb_ticks self fs (mb_ticks self gs mb_init)) = 0)
   \<and> (\<exists>N. \<forall>hs. N \<le> length hs \<and> no_new_input self hs (mb_ticks self gs mb_init) \<longrightarrow>
        decayingVolume (mb_ticks self hs (mb_ticks self gs mb_init)) = 0)"
proof -
  let ?s = "mb_ticks self gs mb_init"
  have inv: "0 \<le> decayingVolume ?s" "decayingVolume ?s \<le> loudest ?s" "mb_smoothing ?s = 8 / 10"
    using mb_init_invariant [of self gs] by simp_all
  have a: "loudest s \<le> loudest (mb_ticks self fs s)" by (rule mb_ticks_loudest_mono)
  have c: "\<not> exceeds (immediateVolume a) (decayingVolume ?s) \<longrightarrow>
        decayingVolume (fst (mb_tick self visible (Some a) ?s))
          = (if decayingVolume ?s * (8 / 10) < 1 / 1000 then 0 else decayingVolume ?s * (8 / 10))"
    using mb_tick_decay(1) [of a ?s self visible] inv(3) by simp
  have d: "decayingVolume (mb_ticks self hs ?s) = decayed (decayingVolume ?s) (length hs)"
    if "no_new_input self hs ?s" "hs \<noteq> []" for hs
    using inv(1,3) that by (rule no_new_input_decays)
  have e: "decayingVolume (mb_ticks self fs ?s) = 0"
    if "no_new_input self fs ?s" "decayingVolume ?s \<le> 1" "31 \<le> length fs"
  proof -
    from that(3) have "fs \<noteq> []" by auto
    with that(1) have "decayingVolume (mb_ticks self fs ?s) = decayed (decayingVolume ?s) (length fs)"
      by (rule d)
    also have "\<dots> = 0" using inv(1) that(2,3) by (rule decayed_31)
    finally show ?thesis .
  qed
  from decayed_eventually [OF inv(1)] obtain N
    where N: "\<forall>n\<ge>N. decayed (decayingVolume ?s) n = 0" by blast
  have "decayingVolume (mb_ticks self hs ?s) = 0"
    if "Suc N \<le> length hs" "no_new_input self hs ?s" for hs
  proof -
    from that(1) have "hs \<noteq> []" by auto
    with that(2) have "decayingVolume (mb_ticks self hs ?s) = decayed (decayingVolume ?s) (length hs)"
      by (rule d)
    also have "\<dots> = 0" using N that(1) by simp
    finally show ?thesis .
  qed
  then have f: "\<exists>N. \<forall>hs. N \<le> length hs \<and> no_new_input self hs ?s \<longrightarrow>
        decayingVolume (mb_ticks self hs ?s) = 0" by blast
  from a inv(2) c d e f show ?thesis by blast
qed

theorem envelope_below_peak_and_decays_witness:
  "loudest mb_init \<le> loudest heard_half
   \<and> decayingVolume heard_half \<le> loudest heard_half
   \<and> \<not> exceeds (immediateVolume (laa_init :: nat local_audio_analyser)) (decayingVolume heard_half)
   \<and> decayingVolume (fst (mb_tick (0 :: nat) True (Some (laa_init :: nat local_audio_analyser)) heard_half)) = 2 / 5
   \<and> no_new_input (0 :: nat) (replicate 31 (True, Some (laa_init :: nat local_audio_analyser))) heard_half
   \<and> decayingVolume heard_half \<le> 1
   \<and> 31 \<le> length (replicate 31 (True, Some (laa_init :: nat local_audio_analyser)))
   \<and> decayingVolume (mb_ticks (0 :: nat) (replicate 31 (True, Some (laa_init :: nat local_audio_analyser))) heard_half) = 0"
proof -
  let ?a = "laa_init :: nat local_audio_analyser"
  let ?gs = "[(True, Some (laa_init\<lparr>immediateVolume := Num (1 / 2)\<rparr>))]
               :: (bool \<times> nat local_audio_analyser option) list"
  let ?fs = "replicate 31 (True, Some ?a)"
  have s: "mb_ticks 0 ?gs mb_init = heard_half" by (simp add: heard_half_def)
  have h1: "\<not> exceeds (immediateVolume ?a) (decayingVolume heard_half)"
    by (simp add: heard_half_fields laa_init_def exceeds_def)
  have h2: "no_new_input 0 ?fs heard_half"
    by (rule silent_frames) (simp_all add: heard_half_fields laa_init_def)
  have h3: "decayingVolume heard_half \<le> 1" by (simp add: heard_half_fields)
  have h4: "31 \<le> length ?fs" by simp
  note T = envelope_below_peak_and_decays [of mb_init 0 ?fs ?gs ?a True, unfolded s]
  have w0: "loudest mb_init \<le> loudest heard_half"
    using envelope_below_peak_and_decays [of mb_init 0 ?gs ?gs ?a True, unfolded s] by blast
  from T have w1: "decayingVolume heard_half \<le> loudest heard_half" by blast
  from T h1 have "decayingVolume (fst (mb_tick 0 True (Some ?a) heard_half))
      = (if decayingVolume heard_half * (8 / 10) < 1 / 1000 then 0
         else decayingVolume heard_half * (8 / 10))" by blast
  then have w2: "decayingVolume (fst (mb_tick 0 True (Some ?a) heard_half)) = 2 / 5"
    by (simp add: heard_half_fields)
  from T h2 h3 h4 have w3: "decayingVolume (mb_ticks 0 ?fs heard_half) = 0" by blast
  from w0 w1 h1 w2 h2 h3 h4 w3 show ?thesis by blast
qed

section \<open>Lemmas on the subscribers\<close>

lemma indexOf_absent: "(indexOf xs ii = - 1) = (ii \<notin> set xs)"
proof (induction xs)
  case Nil
  show ?case by simp
next
  case (Cons y ys)
  have "0 \<le> indexOf ys ii \<or> indexOf ys ii = - 1"
    by (induction ys) (auto simp: Let_def)
  then show ?case using Cons by (auto simp: Let_def)
qed

lemma indexOf_append_fresh:
  "ii \<notin> set xs \<Longrightarrow> indexOf (xs @ [ii]) ii = int (length xs)"
  by (induction xs) (auto simp: Let_def)

section \<open>C9: subscribing and unsubscribing\<close>

text \<open>
  C9: subscribing a listener that is subscribed leaves the system as it is, so
  \<open>subscribe\<close> is idempotent; unsubscribing a listener that is not subscribed leaves
  it as it is; and subscribing a listener that is not subscribed and unsubscribing it
  again gives the system back, with the subscribers in their order. After \<open>subscribe\<close>
  the subscribers are the former ones and the listener.
\<close>

theorem subscribe_unsubscribe_idempotent:
  "(ii \<in> set (subscribers s) \<longrightarrow> subscribe ii s = s)
   \<and> (ii \<notin> set (subscribers s) \<longrightarrow> unsubscribe ii s = s)
   \<and> (ii \<notin> set (subscribers s) \<longrightarrow> unsubscribe ii (subscribe ii s) = s)
   \<and> subscribe ii (subscribe ii s) = subscribe ii s
   \<and> set (subscribers (subscribe ii s)) = insert ii (set (subscribers s))"
proof -
  have a: "ii \<in> set (subscribers s) \<longrightarrow> subscribe ii s = s"
    by (simp add: subscribe_def indexOf_absent)
  have b: "ii \<notin> set (subscribers s) \<longrightarrow> unsubscribe ii s = s"
    by (simp add: unsubscribe_def indexOf_absent Let_def)
  have c: "ii \<notin> set (subscribers s) \<longrightarrow> unsubscribe ii (subscribe ii s) = s"
    by (simp add: unsubscribe_def subscribe_def indexOf_absent indexOf_append_fresh Let_def splice1_def)
  have d: "subscribe ii (subscribe ii s) = subscribe ii s"
    by (simp add: subscribe_def indexOf_absent)
  have e: "set (subscribers (subscribe ii s)) = insert ii (set (subscribers s))"
    by (auto simp add: subscribe_def indexOf_absent)
  from a b c d e show ?thesis by blast
qed

theorem subscribe_unsubscribe_idempotent_witness:
  "(2 :: nat) \<in> set (subscribers (subscribe 2 (subscribe 1 (laa_init :: nat local_audio_analyser))))
   \<and> subscribe 2 (subscribe 2 (subscribe 1 (laa_init :: nat local_audio_analyser))) = subscribe 2 (subscribe 1 (laa_init :: nat local_audio_analyser))
   \<and> (3 :: nat) \<notin> set (subscribers (subscribe 2 (subscribe 1 (laa_init :: nat local_audio_analyser))))
   \<and> unsubscribe 3 (subscribe 2 (subscribe 1 (laa_init :: nat local_audio_analyser))) = subscribe 2 (subscribe 1 (laa_init :: nat local_audio_analyser))
   \<and> unsubscribe 3 (subscribe 3 (subscribe 2 (subscribe 1 (laa_init :: nat local_audio_analyser))))
       = subscribe 2 (subscribe 1 (laa_init :: nat local_audio_analyser))
   \<and> subscribers (subscribe 2 (subscribe 1 (laa_init :: nat local_audio_analyser))) = [1, 2]"
  using subscribe_unsubscribe_idempotent [of 2 "subscribe 2 (subscribe (1 :: nat) (laa_init :: nat local_audio_analyser))"]
    subscribe_unsubscribe_idempotent [of 3 "subscribe 2 (subscribe (1 :: nat) (laa_init :: nat local_audio_analyser))"]
  by (simp add: subscribe_def laa_init_def)

end
